theory Spec2Isabelle
  imports Complex_Main "HOL-Library.Sublist" "HOL-Library.Multiset" "HOL-Library.List_Lexorder" "HOL-Library.Char_ord"
begin

section \<open>Text\<close>

text \<open>
  A Python \<open>str\<close> is a sequence of code points. The development covers text over the
  Latin-1 repertoire (code points 0 to 255, which holds the German letters the translation
  tables name): a \<^typ>\<open>char\<close> is one code point, \<open>of_char c\<close> its number, and a
  \<^typ>\<open>string\<close> one Python string. The character classes below are the ones CPython uses
  for \<open>str.strip\<close>, \<open>str.lower\<close> and for the whitespace and word classes of a \<open>str\<close> pattern, cut down
  to these 256 code points.
\<close>

type_synonym str = string

definition a_uml :: char where "a_uml = CHR 0xE4"
definition o_uml :: char where "o_uml = CHR 0xF6"
definition u_uml :: char where "u_uml = CHR 0xFC"
definition eszett :: char where "eszett = CHR 0xDF"

definition isspace :: "char \<Rightarrow> bool" where
  \<comment> \<open>\<open>str.isspace\<close>: TAB to CR, FS to US, SPACE, NEL and NBSP.\<close>
  "isspace c = (let n = (of_char c :: nat) in
     (9 \<le> n \<and> n \<le> 13) \<or> (28 \<le> n \<and> n \<le> 32) \<or> n = 133 \<or> n = 160)"

definition isalnum :: "char \<Rightarrow> bool" where
  \<comment> \<open>\<open>str.isalnum\<close>: letters, digits, and the Latin-1 ordinal indicators, micro sign,
      superscript digits and vulgar fractions.\<close>
  "isalnum c = (let n = (of_char c :: nat) in
     (48 \<le> n \<and> n \<le> 57) \<or> (65 \<le> n \<and> n \<le> 90) \<or> (97 \<le> n \<and> n \<le> 122) \<or>
     n = 170 \<or> n = 178 \<or> n = 179 \<or> n = 181 \<or> n = 185 \<or> n = 186 \<or>
     (188 \<le> n \<and> n \<le> 190) \<or> (192 \<le> n \<and> n \<le> 214) \<or> (216 \<le> n \<and> n \<le> 246) \<or>
     248 \<le> n)"

definition is_word :: "char \<Rightarrow> bool" where
  \<comment> \<open>the word class of \<open>re\<close>: alphanumeric or underscore\<close>
  "is_word c = (isalnum c \<or> c = CHR ''_'')"

definition lower_char :: "char \<Rightarrow> char" where
  "lower_char c = (let n = (of_char c :: nat) in
     if (65 \<le> n \<and> n \<le> 90) \<or> (192 \<le> n \<and> n \<le> 214) \<or> (216 \<le> n \<and> n \<le> 222)
     then char_of (n + 32) else c)"

definition lower :: "str \<Rightarrow> str" where
  "lower s = map lower_char s"

definition strip :: "str \<Rightarrow> str" where
  "strip s = rev (dropWhile isspace (rev (dropWhile isspace s)))"

section \<open>scripts/preprocessing.py\<close>

text \<open>
  \<open>re.sub(k, v, s)\<close> for a pattern \<open>k\<close> without metacharacters (every key of the two
  translation tables is one) and a replacement \<open>v\<close> without backslash: the occurrences of
  \<open>k\<close> are replaced from the left, without overlap. The empty pattern matches at every
  position.
\<close>

function re_sub :: "str \<Rightarrow> str \<Rightarrow> str \<Rightarrow> str" where
  "re_sub pat repl s =
     (if pat = [] then concat (map (\<lambda>c. repl @ [c]) s) @ repl
      else if s = [] then []
      else if prefix pat s then repl @ re_sub pat repl (drop (length pat) s)
      else hd s # re_sub pat repl (tl s))"
  by pat_completeness auto
termination
  by (relation "measure (\<lambda>(pat, repl, s). length s)") auto

declare re_sub.simps [simp del]

definition ABBREVIATION_TRANSLATION :: "(str \<times> str) list" where
  "ABBREVIATION_TRANSLATION =
     [(''stra'' @ [eszett] @ ''e'', ''str.''), (''Stra'' @ [eszett] @ ''e'', ''Str.'')]"

definition MUTATION_TRANSLATION :: "(str \<times> str) list" where
  "MUTATION_TRANSLATION =
     [([a_uml], ''ae''), ([o_uml], ''oe''), ([u_uml], ''ue''), ([eszett], ''ss'')]"

definition replacements :: "(str \<times> str) list" where
  \<comment> \<open>the dict union keeps the keys of the left table first; the tables share no key\<close>
  "replacements = ABBREVIATION_TRANSLATION @ MUTATION_TRANSLATION"

definition normalize_text :: "str \<Rightarrow> str" where
  "normalize_text s1 =
     (let s2 = foldl (\<lambda>s kv. re_sub (fst kv) (snd kv) s) s1 replacements
      in filter (\<lambda>c. is_word c \<or> isspace c) (strip (lower s2)))"

text \<open>
  \<open>preprocess(df, column)\<close> copies the frame, resets its index, fills the missing
  values of the column with the empty string and normalizes the column. A column is a list
  of optional strings (\<open>None\<close> a missing value); the result is the index of the copy
  (\<open>0, 1, ...\<close> after the reset), the normalized series and the original (filled) series.
\<close>

definition preprocess :: "str option list \<Rightarrow> nat list \<times> str list \<times> str list" where
  "preprocess column =
     (let filled = map (\<lambda>v. case v of None \<Rightarrow> [] | Some s \<Rightarrow> s) column
      in ([0..<length filled], map normalize_text filled, filled))"

section \<open>config/config.py\<close>

definition THRESHOLDS :: "(string \<times> rat) list" where
  "THRESHOLDS =
     [(''regex'', 5 / 10), (''levenshtein'', 8 / 10), (''jaccard'', 5 / 10),
      (''tfidf'', 5 / 10), (''ngram'', 5 / 10), (''dice'', 5 / 10)]"

section \<open>What the algorithm modules share\<close>

text \<open>
  The exceptions of the Python code are values: a function that can raise returns
  \<open>py_error + 'a\<close>, with \<open>Inl\<close> the exception.
\<close>

datatype py_error = IndexError | ValueError | KeyError | TypeError | ReError

text \<open>\<open>series.iloc[idx]\<close>, for the non-negative positions the index of a frame holds.\<close>

definition iloc :: "'a list \<Rightarrow> nat \<Rightarrow> py_error + 'a" where
  "iloc xs idx = (if idx < length xs then Inr (xs ! idx) else Inl IndexError)"

text \<open>
  The dictionary that \<open>__calculate_best_match\<close> returns, one row of the result table. The
  score \<open>BEST_MATCH\<close> is a float in five modules and a bool in \<open>regex\<close>; floats are exact
  rationals here (rounding is not modelled).
\<close>

record 's match_result =
  MATCH :: str
  BEST_FOUND_MATCH :: "str option"
  TRUE_MATCH :: "str option"
  BEST_MATCH :: "'s option"

definition no_match :: "str \<Rightarrow> 's match_result" where
  "no_match match_original =
     \<lparr>MATCH = match_original, BEST_FOUND_MATCH = None, TRUE_MATCH = None, BEST_MATCH = None\<rparr>"

text \<open>
  \<open>perform_matching\<close> is the same in every module: one future per index, and a loop over
  \<open>as_completed(futures)\<close> that appends the result of each future, or prints the index and
  the exception when the future raised. \<open>as_completed\<close> yields every future once:
  first the futures that are already finished when it is called, in the order that the set
  of the finished futures gives them (the reverse of its iteration), then the others as
  they finish. The argument \<open>completed\<close> is the list of the
  indices in the order in which their futures are yielded: a rearrangement of \<open>indices\<close>
  that neither the input order nor the order in which the tasks finish determines. The
  state of the loop is the list \<open>results\<close> and the lines printed so far (index and
  exception).
\<close>

fun collect :: "(nat \<Rightarrow> py_error + 'r) \<Rightarrow> nat list \<Rightarrow> 'r list \<times> (nat \<times> py_error) list
    \<Rightarrow> 'r list \<times> (nat \<times> py_error) list" where
  "collect calc [] (results, printed) = (results, printed)"
| "collect calc (idx # rest) (results, printed) =
     (case calc idx of
        Inr result \<Rightarrow> collect calc rest (results @ [result], printed)
      | Inl e \<Rightarrow> collect calc rest (results, printed @ [(idx, e)]))"

definition perform_matching :: "(nat \<Rightarrow> py_error + 'r) \<Rightarrow> nat list \<Rightarrow> 'r list \<times> (nat \<times> py_error) list" where
  "perform_matching calc completed = collect calc completed ([], [])"

definition completion_order :: "nat list \<Rightarrow> nat list \<Rightarrow> bool" where
  "completion_order indices completed = (mset completed = mset indices)"

text \<open>
  \<open>export_results\<close> adds the column \<open>BEST_MATCH_BINARY\<close>, the score compared with the
  module's threshold. A missing score (\<open>None\<close>, or NaN in a float column) compares false;
  a bool score counts as 0 or 1. The frame built from an empty list of results has no
  column \<open>BEST_MATCH\<close>, and reading it raises \<open>KeyError\<close>; \<open>THRESHOLDS.name\<close> is
  \<open>dict.get\<close>, and comparing with the \<open>None\<close> of a missing key raises \<open>TypeError\<close>.
\<close>

record 's export_row = "'s match_result" +
  BEST_MATCH_BINARY :: bool

definition export_results :: "('s \<Rightarrow> rat) \<Rightarrow> string \<Rightarrow> 's match_result list
    \<Rightarrow> py_error + 's export_row list" where
  "export_results as_number name df =
     (if df = [] then Inl KeyError
      else case map_of THRESHOLDS name of
        None \<Rightarrow> Inl TypeError
      | Some threshold \<Rightarrow>
          Inr (map (\<lambda>r. match_result.extend r
                 (export_row.fields
                    (case BEST_MATCH r of None \<Rightarrow> False | Some s \<Rightarrow> as_number s \<ge> threshold))) df))"

definition float_number :: "rat \<Rightarrow> rat" where
  "float_number x = x"

definition bool_number :: "bool \<Rightarrow> rat" where
  "bool_number b = (if b then 1 else 0)"

section \<open>scripts/algorithms/levenshtein.py\<close>

text \<open>
  \<open>rapidfuzz.distance.Levenshtein\<close> with the default weights: the number of insertions,
  deletions and substitutions, computed here row by row (Wagner and Fischer), and the
  normalized similarity \<open>1 - distance / max(len1, len2)\<close>, which is 1 for two empty
  strings.
\<close>

fun row_step :: "char \<Rightarrow> str \<Rightarrow> nat list \<Rightarrow> nat \<Rightarrow> nat list" where
  "row_step c (y # ys) (diag # up # prev) left =
     (let v = min (min (up + 1) (left + 1)) (diag + (if c = y then 0 else 1))
      in v # row_step c ys (up # prev) v)"
| "row_step c _ _ left = []"

definition next_row :: "str \<Rightarrow> nat list \<Rightarrow> char \<Rightarrow> nat list" where
  "next_row s2 prev c = (hd prev + 1) # row_step c s2 prev (hd prev + 1)"

definition distance :: "str \<Rightarrow> str \<Rightarrow> nat" where
  "distance s1 s2 = last (foldl (next_row s2) [0..<Suc (length s2)] s1)"

definition normalized_similarity :: "str \<Rightarrow> str \<Rightarrow> rat" where
  "normalized_similarity s1 s2 =
     (let maximum = max (length s1) (length s2)
      in if maximum = 0 then 1 else 1 - of_nat (distance s1 s2) / of_nat maximum)"

text \<open>
  \<open>rapidfuzz.process.extractOne(query, choices, scorer, processor=None)\<close> over a series:
  the loop over \<open>choices.items()\<close> keeps the first choice with the highest score (a later
  choice replaces the kept one only with a strictly higher score), stops at a score of 1,
  and the result is \<open>None\<close> when there was no choice. The result is the triple of choice,
  score and key.
\<close>

fun extractOne_loop :: "str \<Rightarrow> (nat \<times> str) list \<Rightarrow> (str \<times> rat \<times> nat) option
    \<Rightarrow> (str \<times> rat \<times> nat) option" where
  "extractOne_loop query [] result = result"
| "extractOne_loop query ((key, choice) # rest) result =
     (let score = normalized_similarity query choice;
          result' = (case result of
                       None \<Rightarrow> Some (choice, score, key)
                     | Some (_, result_score, _) \<Rightarrow>
                         if score > result_score then Some (choice, score, key) else result)
      in if score = 1 then result' else extractOne_loop query rest result')"

definition extractOne :: "str \<Rightarrow> str list \<Rightarrow> (str \<times> rat \<times> nat) option" where
  "extractOne query choices = extractOne_loop query (enumerate 0 choices) None"

text \<open>The module's globals, as \<open>prep_\<close> sets them.\<close>

record originals =
  match_original_series :: "str list"
  data_original_series :: "str list"
  indices :: "nat list"

record normalized = originals +
  match_norm_series :: "str list"

record levenshtein_globals = normalized +
  data_norm_series :: "str list"

definition levenshtein_prep :: "nat list \<times> str list \<times> str list \<Rightarrow> nat list \<times> str list \<times> str list
    \<Rightarrow> levenshtein_globals" where
  "levenshtein_prep data match =
     (case data of (data_df, data_norm, data_original) \<Rightarrow>
      (case match of (match_df, match_norm, match_original) \<Rightarrow>
        \<lparr>match_original_series = match_original, data_original_series = data_original,
         indices = match_df, match_norm_series = match_norm, data_norm_series = data_norm\<rparr>))"

definition levenshtein_calculate_best_match :: "levenshtein_globals \<Rightarrow> nat
    \<Rightarrow> py_error + rat match_result" where
  "levenshtein_calculate_best_match g idx =
     (case iloc (match_original_series g) idx of Inl e \<Rightarrow> Inl e | Inr match_original \<Rightarrow>
      (case iloc (match_norm_series g) idx of Inl e \<Rightarrow> Inl e | Inr match_norm \<Rightarrow>
        let s1_clean = strip match_norm in
        if s1_clean = [] then Inr (no_match match_original)
        else (case extractOne s1_clean (data_norm_series g) of
          Some (best_match_choice, best_match_score, best_match_idx) \<Rightarrow>
            (case iloc (data_original_series g) best_match_idx of Inl e \<Rightarrow> Inl e
             | Inr best_match_original \<Rightarrow>
                 Inr \<lparr>MATCH = match_original, BEST_FOUND_MATCH = Some best_match_original,
                      TRUE_MATCH = None, BEST_MATCH = Some best_match_score\<rparr>)
        | None \<Rightarrow> Inr (no_match match_original))))"

definition levenshtein_perform_matching :: "levenshtein_globals \<Rightarrow> nat list
    \<Rightarrow> rat match_result list \<times> (nat \<times> py_error) list" where
  "levenshtein_perform_matching g completed =
     perform_matching (levenshtein_calculate_best_match g) completed"

definition levenshtein_export_results :: "rat match_result list \<Rightarrow> py_error + rat export_row list" where
  "levenshtein_export_results df = export_results float_number ''levenshtein'' df"

section \<open>The vectorizer and the arrays\<close>

text \<open>
  \<open>sklearn.feature_extraction.text.CountVectorizer\<close>, as the modules configure it. Both
  analyzers lowercase the document first. The word analyzer (the default) returns the
  matches of the default token pattern, the maximal runs of two or more word characters.
  The character analyzer with \<open>ngram_range=(n, n)\<close>, \<open>n = 2\<close>, replaces every run of two
  or more whitespace characters by one blank and returns all substrings of length two.
\<close>

fun word_runs :: "str \<Rightarrow> str \<Rightarrow> str list" where
  "word_runs [] run = (if run = [] then [] else [run])"
| "word_runs (c # cs) run =
     (if is_word c then word_runs cs (run @ [c])
      else (if run = [] then [] else [run]) @ word_runs cs [])"

definition word_analyzer :: "str \<Rightarrow> str list" where
  "word_analyzer doc = filter (\<lambda>token. 2 \<le> length token) (word_runs (lower doc) [])"

function white_spaces_sub :: "str \<Rightarrow> str" where
  "white_spaces_sub [] = []"
| "white_spaces_sub [c] = [c]"
| "white_spaces_sub (a # b # cs) =
     (if isspace a \<and> isspace b then CHR '' '' # white_spaces_sub (dropWhile isspace cs)
      else a # white_spaces_sub (b # cs))"
  by pat_completeness auto
termination
  by (relation "measure length") (auto simp: length_dropWhile_le less_Suc_eq_le le_SucI)

fun char_ngrams :: "str \<Rightarrow> str list" where
  "char_ngrams (a # b # cs) = [a, b] # char_ngrams (b # cs)"
| "char_ngrams _ = []"

definition char_analyzer :: "str \<Rightarrow> str list" where
  "char_analyzer doc = char_ngrams (white_spaces_sub (lower doc))"

text \<open>
  \<open>fit\<close> collects the features of the documents and sorts them; it raises \<open>ValueError\<close>
  (empty vocabulary) when the documents hold no feature. The fitted vectorizer is its
  vocabulary. \<open>transform\<close> returns one row per document with, for every feature of the
  vocabulary, the number of its occurrences in the document (1 for any positive number
  when \<open>binary\<close> is set); features outside the vocabulary are ignored. A matrix is the list
  of its rows.
\<close>

definition fit :: "(str \<Rightarrow> str list) \<Rightarrow> str list \<Rightarrow> py_error + str list" where
  "fit analyzer raw_documents =
     (let vocabulary = remdups (concat (map analyzer raw_documents))
      in if vocabulary = [] then Inl ValueError else Inr (sort vocabulary))"

definition transform :: "(str \<Rightarrow> str list) \<Rightarrow> bool \<Rightarrow> str list \<Rightarrow> str list \<Rightarrow> int list list" where
  "transform analyzer binary vocabulary raw_documents =
     map (\<lambda>doc. map (\<lambda>feature.
            let n = int (count_list (analyzer doc) feature)
            in if binary then min n 1 else n) vocabulary) raw_documents"

definition nnz :: "int list \<Rightarrow> nat" where
  "nnz row = length (filter (\<lambda>x. x \<noteq> 0) row)"

definition multiply_sum :: "int list list \<Rightarrow> int list \<Rightarrow> int list" where
  \<comment> \<open>\<open>data_vectors.multiply(match_vector).sum(axis=1)\<close>: the product is elementwise\<close>
  "multiply_sum data_vectors match_vector =
     map (\<lambda>row. sum_list (map2 (*) row match_vector)) data_vectors"

text \<open>
  The division of two integer arrays gives floats: a quotient, or, under
  \<open>np.errstate(divide="ignore", invalid="ignore")\<close>, an infinity for a nonzero numerator
  over zero and NaN for zero over zero. \<open>np.nan_to_num\<close> replaces NaN by zero and the
  infinities by the largest and smallest finite float. Finite floats are exact rationals
  here.
\<close>

datatype float64 = Finite rat | PosInf | NegInf | NaN

definition true_divide :: "int \<Rightarrow> int \<Rightarrow> float64" where
  "true_divide a b =
     (if b = 0 then (if a = 0 then NaN else if 0 < a then PosInf else NegInf)
      else Finite (of_int a / of_int b))"

definition float_max :: rat where
  "float_max = 2 ^ 1024 - 2 ^ 971"

definition nan_to_num :: "float64 \<Rightarrow> rat" where
  "nan_to_num x =
     (case x of Finite r \<Rightarrow> r | NaN \<Rightarrow> 0 | PosInf \<Rightarrow> float_max | NegInf \<Rightarrow> - float_max)"

text \<open>
  \<open>argmax\<close> is the position of the first maximum and \<open>max\<close> the maximum; both raise
  \<open>ValueError\<close> on an empty array.
\<close>

fun argmax_from :: "'a::linorder list \<Rightarrow> nat \<Rightarrow> nat \<Rightarrow> 'a \<Rightarrow> nat" where
  "argmax_from [] i best_i best = best_i"
| "argmax_from (x # xs) i best_i best =
     (if best < x then argmax_from xs (Suc i) i x else argmax_from xs (Suc i) best_i best)"

definition argmax :: "'a::linorder list \<Rightarrow> py_error + nat" where
  "argmax xs = (case xs of [] \<Rightarrow> Inl ValueError | x # rest \<Rightarrow> Inr (argmax_from rest 1 0 x))"

definition amax :: "rat list \<Rightarrow> py_error + rat" where
  "amax xs = (case xs of [] \<Rightarrow> Inl ValueError | x # rest \<Rightarrow> Inr (foldl max x rest))"

section \<open>scripts/algorithms/jaccard.py\<close>

record jaccard_globals = normalized +
  data_vectors :: "int list list"
  vectorizer :: "str list"

definition jaccard_prep :: "nat list \<times> str list \<times> str list \<Rightarrow> nat list \<times> str list \<times> str list
    \<Rightarrow> py_error + jaccard_globals" where
  "jaccard_prep data match =
     (case data of (data_df, data_norm, data_original) \<Rightarrow>
      (case match of (match_df, match_norm, match_original) \<Rightarrow>
      (case fit word_analyzer data_norm of Inl e \<Rightarrow> Inl e | Inr vocabulary \<Rightarrow>
        Inr \<lparr>match_original_series = match_original, data_original_series = data_original,
             indices = match_df, match_norm_series = match_norm,
             data_vectors = transform word_analyzer True vocabulary data_norm,
             vectorizer = vocabulary\<rparr>)))"

definition jaccard_similarities :: "int list list \<Rightarrow> int list \<Rightarrow> rat list" where
  "jaccard_similarities vectors match_vector =
     (let intersection = multiply_sum vectors match_vector;
          union = map2 (\<lambda>row i. sum_list row + sum_list match_vector - i) vectors intersection
      in map nan_to_num (map2 true_divide intersection union))"

definition jaccard_calculate_best_match :: "jaccard_globals \<Rightarrow> nat \<Rightarrow> py_error + rat match_result" where
  "jaccard_calculate_best_match g idx =
     (case iloc (match_original_series g) idx of Inl e \<Rightarrow> Inl e | Inr match_original \<Rightarrow>
      (case iloc (match_norm_series g) idx of Inl e \<Rightarrow> Inl e | Inr match_norm \<Rightarrow>
        let s1_clean = strip match_norm in
        if s1_clean = [] then Inr (no_match match_original)
        else
          let match_vector = hd (transform word_analyzer True (vectorizer g) [s1_clean]);
              similarities = jaccard_similarities (data_vectors g) match_vector
          in (case amax similarities of Inl e \<Rightarrow> Inl e | Inr max_similarity \<Rightarrow>
             (case argmax similarities of Inl e \<Rightarrow> Inl e | Inr best_match_idx \<Rightarrow>
             (case iloc (data_original_series g) best_match_idx of Inl e \<Rightarrow> Inl e
             | Inr best_match_original \<Rightarrow>
                 Inr \<lparr>MATCH = match_original, BEST_FOUND_MATCH = Some best_match_original,
                      TRUE_MATCH = None, BEST_MATCH = Some max_similarity\<rparr>)))))"

definition jaccard_perform_matching :: "jaccard_globals \<Rightarrow> nat list
    \<Rightarrow> rat match_result list \<times> (nat \<times> py_error) list" where
  "jaccard_perform_matching g completed =
     perform_matching (jaccard_calculate_best_match g) completed"

definition jaccard_export_results :: "rat match_result list \<Rightarrow> py_error + rat export_row list" where
  "jaccard_export_results df = export_results float_number ''jaccard'' df"

section \<open>scripts/algorithms/dice.py and scripts/algorithms/ngram.py\<close>

text \<open>
  The two modules have the same globals and the same \<open>prep_\<close>: a character bigram
  vectorizer with \<open>binary=False\<close>, fitted on the corpus followed by the queries, and the
  two matrices of bigram counts.
\<close>

record ngram_globals = originals +
  match_ngrams_matrix :: "int list list"
  data_ngrams_matrix :: "int list list"

definition ngram_prep :: "nat list \<times> str list \<times> str list \<Rightarrow> nat list \<times> str list \<times> str list
    \<Rightarrow> py_error + ngram_globals" where
  "ngram_prep data match =
     (case data of (data_df, data_norm, data_original) \<Rightarrow>
      (case match of (match_df, match_norm, match_original) \<Rightarrow>
      (case fit char_analyzer (data_norm @ match_norm) of Inl e \<Rightarrow> Inl e | Inr vocabulary \<Rightarrow>
        Inr \<lparr>match_original_series = match_original, data_original_series = data_original,
             indices = match_df,
             match_ngrams_matrix = transform char_analyzer False vocabulary match_norm,
             data_ngrams_matrix = transform char_analyzer False vocabulary data_norm\<rparr>)))"

definition dice_prep :: "nat list \<times> str list \<times> str list \<Rightarrow> nat list \<times> str list \<times> str list
    \<Rightarrow> py_error + ngram_globals" where
  "dice_prep data match = ngram_prep data match"

definition dice_coefficient :: "int list \<Rightarrow> int list list \<Rightarrow> rat list" where
  "dice_coefficient match_vector vectors =
     (let intersection = multiply_sum vectors match_vector;
          match_size = sum_list match_vector;
          data_sizes = map sum_list vectors;
          numerator = map (\<lambda>i. 2 * i) intersection;
          denominator = map (\<lambda>d. match_size + d) data_sizes
      in map nan_to_num (map2 true_divide numerator denominator))"

definition ngram_similarity :: "int list \<Rightarrow> int list list \<Rightarrow> rat list" where
  "ngram_similarity match_vector vectors =
     (let intersection = multiply_sum vectors match_vector;
          match_size = sum_list match_vector;
          data_sizes = map sum_list vectors;
          union = map2 (\<lambda>d i. match_size + d - i) data_sizes intersection
      in map nan_to_num (map2 true_divide intersection union))"

text \<open>
  \<open>__calculate_best_match\<close> of the two modules differs in the similarity only (the
  handler inside the one of \<open>ngram\<close> prints and raises the exception again).
\<close>

definition overlap_calculate_best_match :: "(int list \<Rightarrow> int list list \<Rightarrow> rat list) \<Rightarrow> ngram_globals
    \<Rightarrow> nat \<Rightarrow> py_error + rat match_result" where
  "overlap_calculate_best_match similarity g idx =
     (case iloc (match_original_series g) idx of Inl e \<Rightarrow> Inl e | Inr match_original \<Rightarrow>
      (case iloc (match_ngrams_matrix g) idx of Inl e \<Rightarrow> Inl e | Inr match_vector \<Rightarrow>
        if nnz match_vector = 0 then Inr (no_match match_original)
        else
          let similarities = similarity match_vector (data_ngrams_matrix g)
          in (case argmax similarities of Inl e \<Rightarrow> Inl e | Inr max_similarity_idx \<Rightarrow>
             (case iloc similarities max_similarity_idx of Inl e \<Rightarrow> Inl e | Inr max_similarity \<Rightarrow>
             (case iloc (data_original_series g) max_similarity_idx of Inl e \<Rightarrow> Inl e
             | Inr best_match_original \<Rightarrow>
                 Inr \<lparr>MATCH = match_original, BEST_FOUND_MATCH = Some best_match_original,
                      TRUE_MATCH = None, BEST_MATCH = Some max_similarity\<rparr>)))))"

definition dice_calculate_best_match :: "ngram_globals \<Rightarrow> nat \<Rightarrow> py_error + rat match_result" where
  "dice_calculate_best_match g idx = overlap_calculate_best_match dice_coefficient g idx"

definition ngram_calculate_best_match :: "ngram_globals \<Rightarrow> nat \<Rightarrow> py_error + rat match_result" where
  "ngram_calculate_best_match g idx = overlap_calculate_best_match ngram_similarity g idx"

definition dice_perform_matching :: "ngram_globals \<Rightarrow> nat list
    \<Rightarrow> rat match_result list \<times> (nat \<times> py_error) list" where
  "dice_perform_matching g completed = perform_matching (dice_calculate_best_match g) completed"

definition ngram_perform_matching :: "ngram_globals \<Rightarrow> nat list
    \<Rightarrow> rat match_result list \<times> (nat \<times> py_error) list" where
  "ngram_perform_matching g completed = perform_matching (ngram_calculate_best_match g) completed"

definition dice_export_results :: "rat match_result list \<Rightarrow> py_error + rat export_row list" where
  "dice_export_results df = export_results float_number ''dice'' df"

definition ngram_export_results :: "rat match_result list \<Rightarrow> py_error + rat export_row list" where
  "ngram_export_results df = export_results float_number ''ngram'' df"

section \<open>scripts/algorithms/regex.py\<close>

text \<open>
  \<open>re.escape\<close> (Python 3.7 and later) puts a backslash before each of the characters
  \<open>( ) [ ] { } ? * + - | ^ $ . & ~ #\<close>, the backslash, and the six ASCII whitespace
  characters, and leaves every other character as it is.
\<close>

definition backslash :: char where "backslash = CHR 0x5C"

definition special_chars_map :: "char list" where
  "special_chars_map =
     ''()[]{}?*+-|^$'' @ [backslash] @ ''.&~# '' @ [CHR 0x09, CHR 0x0A, CHR 0x0D, CHR 0x0B, CHR 0x0C]"

definition re_escape :: "str \<Rightarrow> str" where
  "re_escape pattern =
     concat (map (\<lambda>c. if c \<in> set special_chars_map then [backslash, c] else [c]) pattern)"

text \<open>
  \<open>re.compile\<close> reads the pattern from the left (\<open>sre_parse\<close>). A backslash takes the next
  character with it and raises \<open>re.error\<close> at the end of the pattern; followed by an ASCII
  letter or digit it is a class, an anchor, a control or numeric escape or a group
  reference, or raises \<open>re.error\<close> for a letter that names no escape; followed by any other
  character it is that character, literally. A character of \<open>SPECIAL_CHARS\<close>
  (\<open>. [ { ( ) * + ? ^ $ |\<close>) outside an escape starts or continues a construct; every
  other character is a literal. The items \<open>SPECIAL\<close> and \<open>ESCAPE\<close> are recorded but not
  interpreted further (nor are the errors that only they can cause): the development
  needs to know which patterns consist of literals only.
\<close>

datatype re_item = LITERAL char | SPECIAL char | ESCAPE char

definition SPECIAL_CHARS :: "char list" where
  "SPECIAL_CHARS = ''.[{()*+?^$|''"

definition ascii_letter :: "char \<Rightarrow> bool" where
  "ascii_letter c = (let n = (of_char c :: nat) in (65 \<le> n \<and> n \<le> 90) \<or> (97 \<le> n \<and> n \<le> 122))"

definition ascii_digit :: "char \<Rightarrow> bool" where
  "ascii_digit c = (let n = (of_char c :: nat) in 48 \<le> n \<and> n \<le> 57)"

definition escape_item :: "char \<Rightarrow> py_error + re_item" where
  "escape_item c =
     (if ascii_letter c then
        (if c \<in> set ''AbBdDsSwWZafnrtvxuUN'' then Inr (ESCAPE c) else Inl ReError)
      else if ascii_digit c then Inr (ESCAPE c)
      else Inr (LITERAL c))"

fun sre_parse :: "str \<Rightarrow> py_error + re_item list" where
  "sre_parse [] = Inr []"
| "sre_parse [c] =
     (if c = backslash then Inl ReError
      else Inr [if c \<in> set SPECIAL_CHARS then SPECIAL c else LITERAL c])"
| "sre_parse (c # d # cs) =
     (if c = backslash then
        (case escape_item d of Inl e \<Rightarrow> Inl e
         | Inr item \<Rightarrow>
             (case sre_parse cs of Inl e \<Rightarrow> Inl e | Inr items \<Rightarrow> Inr (item # items)))
      else
        (case sre_parse (d # cs) of Inl e \<Rightarrow> Inl e
         | Inr items \<Rightarrow> Inr ((if c \<in> set SPECIAL_CHARS then SPECIAL c else LITERAL c) # items)))"

text \<open>
  \<open>pattern.search(s)\<close> for a pattern compiled with \<open>re.IGNORECASE\<close>. A pattern of
  literals only is found where the string holds its characters in a row, a literal and a
  character of the string matching when their lowercase forms agree. The result is
  \<open>None\<close> for a pattern with an item that is not interpreted here.
\<close>

fun literals :: "re_item list \<Rightarrow> str option" where
  "literals [] = Some []"
| "literals (LITERAL c # items) = (case literals items of None \<Rightarrow> None | Some cs \<Rightarrow> Some (c # cs))"
| "literals (_ # items) = None"

fun str_find :: "str \<Rightarrow> str \<Rightarrow> bool" where
  \<comment> \<open>\<open>s.find(sub) >= 0\<close>\<close>
  "str_find sub [] = (sub = [])"
| "str_find sub (c # cs) = (prefix sub (c # cs) \<or> str_find sub cs)"

definition pattern_search :: "re_item list \<Rightarrow> str \<Rightarrow> bool option" where
  "pattern_search pattern s =
     (case literals pattern of None \<Rightarrow> None | Some cs \<Rightarrow> Some (str_find (lower cs) (lower s)))"

record regex_globals = levenshtein_globals +
  data_norm_array_lower :: "str list"

definition regex_prep :: "nat list \<times> str list \<times> str list \<Rightarrow> nat list \<times> str list \<times> str list
    \<Rightarrow> regex_globals" where
  "regex_prep data match =
     (case data of (data_df, data_norm, data_original) \<Rightarrow>
      (case match of (match_df, match_norm, match_original) \<Rightarrow>
        \<lparr>match_original_series = match_original, data_original_series = data_original,
         indices = match_df, match_norm_series = match_norm, data_norm_series = data_norm,
         data_norm_array_lower = map lower data_norm\<rparr>))"

text \<open>
  \<open>__regex_matching\<close> compiles the escaped query and searches it in every string of the
  series. The outcome \<open>None\<close> stands for a search that the development does not
  interpret; the escaped query never leads there (\<open>sre_parse_re_escape\<close> below).
\<close>

definition regex_matching :: "str \<Rightarrow> str list \<Rightarrow> py_error + bool list option" where
  "regex_matching s1_clean s2_series =
     (case sre_parse (re_escape s1_clean) of Inl e \<Rightarrow> Inl e
      | Inr pattern \<Rightarrow> Inr (those (map (pattern_search pattern) s2_series)))"

definition reverse_regex_matching :: "regex_globals \<Rightarrow> str \<Rightarrow> bool list" where
  "reverse_regex_matching g s1_clean =
     (let s1_lower = lower s1_clean in map (\<lambda>d. str_find d s1_lower) (data_norm_array_lower g))"

definition regex_calculate_best_match :: "regex_globals \<Rightarrow> nat
    \<Rightarrow> py_error + bool match_result option" where
  "regex_calculate_best_match g idx =
     (case iloc (match_original_series g) idx of Inl e \<Rightarrow> Inl e | Inr match_original \<Rightarrow>
      (case iloc (match_norm_series g) idx of Inl e \<Rightarrow> Inl e | Inr match_norm \<Rightarrow>
        let s1_clean = match_norm in
        (case regex_matching s1_clean (data_norm_series g) of Inl e \<Rightarrow> Inl e
        | Inr None \<Rightarrow> Inr None
        | Inr (Some s1_in_s2) \<Rightarrow>
            let s2_in_s1 = reverse_regex_matching g s1_clean;
                mask = map2 (\<or>) s1_in_s2 s2_in_s1;
                matches = map fst (filter snd (zip (data_original_series g) mask))
            in Inr (Some
                 (if matches \<noteq> [] then
                    \<lparr>MATCH = match_original, BEST_FOUND_MATCH = Some (hd matches),
                     TRUE_MATCH = None, BEST_MATCH = Some True\<rparr>
                  else
                    \<lparr>MATCH = match_original, BEST_FOUND_MATCH = None,
                     TRUE_MATCH = None, BEST_MATCH = Some False\<rparr>)))))"

definition regex_perform_matching :: "regex_globals \<Rightarrow> nat list
    \<Rightarrow> bool match_result option list \<times> (nat \<times> py_error) list" where
  "regex_perform_matching g completed = perform_matching (regex_calculate_best_match g) completed"

definition regex_export_results :: "bool match_result list \<Rightarrow> py_error + bool export_row list" where
  "regex_export_results df = export_results bool_number ''regex'' df"

section \<open>main.py\<close>


definition jaccard_main :: "str option list \<Rightarrow> str option list \<Rightarrow> nat list
    \<Rightarrow> py_error + rat export_row list" where
  "jaccard_main data match completed =
     (case jaccard_prep (preprocess data) (preprocess match) of Inl e \<Rightarrow> Inl e
      | Inr g \<Rightarrow> jaccard_export_results (fst (jaccard_perform_matching g completed)))"

definition dice_main :: "str option list \<Rightarrow> str option list \<Rightarrow> nat list
    \<Rightarrow> py_error + rat export_row list" where
  "dice_main data match completed =
     (case dice_prep (preprocess data) (preprocess match) of Inl e \<Rightarrow> Inl e
      | Inr g \<Rightarrow> dice_export_results (fst (dice_perform_matching g completed)))"

definition ngram_main :: "str option list \<Rightarrow> str option list \<Rightarrow> nat list
    \<Rightarrow> py_error + rat export_row list" where
  "ngram_main data match completed =
     (case ngram_prep (preprocess data) (preprocess match) of Inl e \<Rightarrow> Inl e
      | Inr g \<Rightarrow> ngram_export_results (fst (ngram_perform_matching g completed)))"

definition regex_main :: "str option list \<Rightarrow> str option list \<Rightarrow> nat list
    \<Rightarrow> py_error + bool export_row list option" where
  "regex_main data match completed =
     (case those (fst (regex_perform_matching
             (regex_prep (preprocess data) (preprocess match)) completed)) of
        None \<Rightarrow> Inr None
      | Some df \<Rightarrow> (case regex_export_results df of Inl e \<Rightarrow> Inl e | Inr rows \<Rightarrow> Inr (Some rows)))"

section \<open>The six modules\<close>













section \<open>The contract of the algorithms\<close>



section \<open>Normalization\<close>

lemma re_sub_absent:
  "pat \<noteq> [] \<Longrightarrow> \<not> set pat \<subseteq> set s \<Longrightarrow> re_sub pat repl s = s"
proof (induction pat repl s rule: re_sub.induct)
  case (1 pat repl s)
  show ?case
  proof (cases "s = []")
    case True
    with "1.prems" show ?thesis by (subst re_sub.simps) simp
  next
    case False
    have np: "\<not> prefix pat s"
      using "1.prems"(2) by (auto simp: prefix_def)
    have "set (tl s) \<subseteq> set s" using False by (cases s) auto
    then have "\<not> set pat \<subseteq> set (tl s)"
      using "1.prems"(2) by blast
    with "1.IH"(2) "1.prems"(1) False np have "re_sub pat repl (tl s) = tl s"
      by simp
    with False np "1.prems"(1) show ?thesis
      by (subst re_sub.simps) simp
  qed
qed

lemma lower_char_range:
  "lower_char c = c \<or> (of_char (lower_char c) :: nat) \<in> {97..122} \<union> {224..246} \<union> {248..254}"
proof -
  have "(of_char (char_of (of_char c + 32 :: nat)) :: nat) = (of_char c + 32) mod 256"
    by (rule of_char_of)
  then show ?thesis
    unfolding lower_char_def Let_def by (cases "(of_char c :: nat) + 32 < 256") auto
qed

lemma lower_char_idem: "lower_char (lower_char c) = lower_char c"
proof -
  from lower_char_range [of c] show ?thesis
  proof
    assume "lower_char c = c" then show ?thesis by simp
  next
    assume "(of_char (lower_char c) :: nat) \<in> {97..122} \<union> {224..246} \<union> {248..254}"
    then show ?thesis
      by (subst lower_char_def) (auto simp: Let_def)
  qed
qed

lemma normalize_chars:
  assumes a: "c \<in> set (normalize_text x)"
  shows "(is_word c \<or> isspace c) \<and> lower_char c = c"
proof -
  define s2 where "s2 = foldl (\<lambda>s kv. re_sub (fst kv) (snd kv) s) x replacements"
  have n: "normalize_text x = filter (\<lambda>c. is_word c \<or> isspace c) (strip (lower s2))"
    by (simp add: normalize_text_def s2_def)
  have "set (strip (lower s2)) \<subseteq> set (lower s2)"
    unfolding strip_def by (metis set_dropWhileD set_rev subsetI)
  with a n have "c \<in> lower_char ` set s2" by (auto simp: lower_def)
  then have "lower_char c = c" by (auto simp: lower_char_idem)
  with a n show ?thesis by auto
qed

lemma replacements_absent:
  assumes "set y \<inter> {a_uml, o_uml, u_uml, eszett} = {}"
  shows "foldl (\<lambda>s kv. re_sub (fst kv) (snd kv) s) y replacements = y"
proof -
  have "re_sub (''stra'' @ [eszett] @ ''e'') r y = y"
   and "re_sub (''Stra'' @ [eszett] @ ''e'') r y = y"
   and "re_sub [a_uml] r y = y" and "re_sub [o_uml] r y = y"
   and "re_sub [u_uml] r y = y" and "re_sub [eszett] r y = y" for r
    using assms by (auto intro!: re_sub_absent)
  then show ?thesis
    by (simp add: replacements_def ABBREVIATION_TRANSLATION_def MUTATION_TRANSLATION_def)
qed

text \<open>
  Claim C5, as the specification states it: normalization is idempotent on every string.
  The code strips the surrounding whitespace before it deletes the punctuation, so a
  string that starts with punctuation followed by a blank keeps that blank on the first
  pass and loses it on the second: \<open>". a"\<close> normalizes to \<open>" a"\<close>, which normalizes to
  \<open>"a"\<close>. (The replacements also run before the lowercasing, so a capital umlaut
  survives the first pass as its small letter and is rewritten on the second.)
\<close>

theorem C5_normalize_not_idempotent:
  "normalize_text (normalize_text ''. a'') \<noteq> normalize_text ''. a''"
  by code_simp

text \<open>
  Claim C5, amended: normalization is idempotent on every string whose normalized form has
  no leading or trailing whitespace and contains none of the letters a-umlaut, o-umlaut,
  u-umlaut and sharp s.
\<close>

theorem C5_normalize_idempotent_on_trimmed:
  assumes "strip (normalize_text x) = normalize_text x"
    and "set (normalize_text x) \<inter> {a_uml, o_uml, u_uml, eszett} = {}"
  shows "normalize_text (normalize_text x) = normalize_text x"
proof -
  define y where "y = normalize_text x"
  have ch: "\<forall>c\<in>set y. (is_word c \<or> isspace c) \<and> lower_char c = c"
    using normalize_chars by (simp add: y_def)
  have 1: "foldl (\<lambda>s kv. re_sub (fst kv) (snd kv) s) y replacements = y"
    using assms(2) by (simp add: y_def replacements_absent)
  have 2: "lower y = y" using ch by (simp add: lower_def map_idI)
  have 3: "strip y = y" using assms(1) by (simp add: y_def)
  have 4: "filter (\<lambda>c. is_word c \<or> isspace c) y = y" using ch by simp
  have "normalize_text y = y"
    by (simp add: normalize_text_def 1 2 3 4)
  then show ?thesis by (simp add: y_def)
qed

text \<open>
  Claim C5, amended, at the example of the docstring of \<open>__normalize_text\<close> (a doctor's
  name with u-umlaut followed by a street with sharp s and a number): both hypotheses hold
  there and the second pass changes nothing.
\<close>

theorem C5_normalize_idempotent_witness:
  "strip (normalize_text (''Dr. M'' @ [u_uml] @ ''ller-Stra'' @ [eszett] @ ''e 123''))
     = normalize_text (''Dr. M'' @ [u_uml] @ ''ller-Stra'' @ [eszett] @ ''e 123'')
   \<and> set (normalize_text (''Dr. M'' @ [u_uml] @ ''ller-Stra'' @ [eszett] @ ''e 123''))
        \<inter> {a_uml, o_uml, u_uml, eszett} = {}
   \<and> normalize_text (normalize_text (''Dr. M'' @ [u_uml] @ ''ller-Stra'' @ [eszett] @ ''e 123''))
     = normalize_text (''Dr. M'' @ [u_uml] @ ''ller-Stra'' @ [eszett] @ ''e 123'')"
proof -
  have h1: "strip (normalize_text (''Dr. M'' @ [u_uml] @ ''ller-Stra'' @ [eszett] @ ''e 123''))
     = normalize_text (''Dr. M'' @ [u_uml] @ ''ller-Stra'' @ [eszett] @ ''e 123'')"
    by code_simp
  have h2: "set (normalize_text (''Dr. M'' @ [u_uml] @ ''ller-Stra'' @ [eszett] @ ''e 123''))
        \<inter> {a_uml, o_uml, u_uml, eszett} = {}"
    by code_simp
  from h1 h2 C5_normalize_idempotent_on_trimmed [OF h1 h2] show ?thesis
    by (intro conjI)
qed

section \<open>The loop over the completed futures\<close>

lemma collect_eq:
  "collect calc xs (rs, ps) =
     (rs @ map (\<lambda>idx. projr (calc idx)) (filter (\<lambda>idx. \<not> isl (calc idx)) xs),
      ps @ map (\<lambda>idx. (idx, projl (calc idx))) (filter (\<lambda>idx. isl (calc idx)) xs))"
proof (induction xs arbitrary: rs ps)
  case Nil
  then show ?case by simp
next
  case (Cons idx xs)
  then show ?case by (cases "calc idx") simp_all
qed

lemma perform_matching_results:
  "fst (perform_matching calc completed) =
     map (\<lambda>idx. projr (calc idx)) (filter (\<lambda>idx. \<not> isl (calc idx)) completed)"
  by (simp add: perform_matching_def collect_eq)

lemma perform_matching_printed:
  "snd (perform_matching calc completed) =
     map (\<lambda>idx. (idx, projl (calc idx))) (filter (\<lambda>idx. isl (calc idx)) completed)"
  by (simp add: perform_matching_def collect_eq)

lemma filter_completion:
  assumes "completion_order idxs completed"
  shows "mset (filter P completed) = mset (filter P idxs)"
proof -
  have "filter_mset P (mset completed) = filter_mset P (mset idxs)"
    using assms by (simp add: completion_order_def)
  then show ?thesis by (simp only: mset_filter)
qed

text \<open>
  Claim C8: a failure while scoring one query is caught at the task boundary, printed with
  the offending index, and the query is left out of the results without aborting the
  batch. For every order in which the futures are yielded and every scoring function, the number of
  results is the number of queries minus the number of failing queries, the printed indices
  are the failing ones, the results are the results of the succeeding queries, each of
  them once, and none of these indices occurs twice when the index has no duplicate.
\<close>

theorem C8_failures_are_left_out:
  assumes "completion_order idxs completed"
  shows "length (fst (perform_matching calc completed))
           = length idxs - length (filter (\<lambda>idx. isl (calc idx)) idxs)
       \<and> mset (map fst (snd (perform_matching calc completed)))
           = mset (filter (\<lambda>idx. isl (calc idx)) idxs)
       \<and> fst (perform_matching calc completed)
           = map (\<lambda>idx. projr (calc idx)) (filter (\<lambda>idx. \<not> isl (calc idx)) completed)
       \<and> mset (filter (\<lambda>idx. \<not> isl (calc idx)) completed)
           = mset (filter (\<lambda>idx. \<not> isl (calc idx)) idxs)
       \<and> (distinct idxs \<longrightarrow> distinct (filter (\<lambda>idx. \<not> isl (calc idx)) completed))"
proof -
  let ?ok = "\<lambda>idx. \<not> isl (calc idx)"
  let ?bad = "\<lambda>idx. isl (calc idx)"
  have ok: "mset (filter ?ok completed) = mset (filter ?ok idxs)"
    using assms by (rule filter_completion)
  have bad: "mset (filter ?bad completed) = mset (filter ?bad idxs)"
    using assms by (rule filter_completion)
  have "length (filter ?ok completed) = length (filter ?ok idxs)"
    using ok by (metis size_mset)
  moreover have "length (filter ?ok idxs) + length (filter ?bad idxs) = length idxs"
    using sum_length_filter_compl [of ?bad idxs] by simp
  ultimately have 1: "length (fst (perform_matching calc completed))
           = length idxs - length (filter ?bad idxs)"
    by (simp add: perform_matching_results)
  have 2: "mset (map fst (snd (perform_matching calc completed))) = mset (filter ?bad idxs)"
    using bad by (simp add: perform_matching_printed comp_def)
  have "distinct completed" if "distinct idxs"
    using that assms by (metis completion_order_def mset_eq_imp_distinct_iff)
  then have 3: "distinct idxs \<longrightarrow> distinct (filter ?ok completed)"
    by simp
  from 1 2 3 ok show ?thesis
    by (simp add: perform_matching_results)
qed

text \<open>
  Claim C8 at a run of the Dice module in which two tasks raise: with an empty corpus
  the similarity array is empty and \<open>argmax\<close> raises for the first and the third query;
  the second query, a missing value, has an empty vector and reports no match. With the
  future of the third query yielded first, one row is returned and two indices are printed.
\<close>

theorem C8_failures_are_left_out_witness:
  "(let g = \<lparr>match_original_series = [''ab'', [], ''cd''], data_original_series = [],
             indices = [0, 1, 2], match_ngrams_matrix = [[1, 0], [0, 0], [0, 1]],
             data_ngrams_matrix = []\<rparr>
    in dice_prep (preprocess []) (preprocess [Some ''ab'', None, Some ''cd'']) = Inr g
     \<and> completion_order (indices g) [2, 0, 1]
     \<and> distinct (indices g)
     \<and> dice_perform_matching g [2, 0, 1] = ([no_match []], [(2, ValueError), (0, ValueError)])
     \<and> filter (\<lambda>idx. isl (dice_calculate_best_match g idx)) (indices g) = [0, 2]
     \<and> length (fst (perform_matching (dice_calculate_best_match g) [2, 0, 1]))
         = length (indices g) - length (filter (\<lambda>idx. isl (dice_calculate_best_match g idx)) (indices g))
     \<and> mset (map fst (snd (perform_matching (dice_calculate_best_match g) [2, 0, 1])))
         = mset (filter (\<lambda>idx. isl (dice_calculate_best_match g idx)) (indices g))
     \<and> distinct (filter (\<lambda>idx. \<not> isl (dice_calculate_best_match g idx)) [2, 0, 1]))"
proof -
  define g where "g = \<lparr>match_original_series = [''ab'', [], ''cd''], data_original_series = [],
             indices = [0, 1, 2], match_ngrams_matrix = [[1, 0], [0, 0], [0, 1]],
             data_ngrams_matrix = ([] :: int list list)\<rparr>"
  have prep: "dice_prep (preprocess []) (preprocess [Some ''ab'', None, Some ''cd'']) = Inr g"
    unfolding g_def by code_simp
  have h: "completion_order (indices g) [2, 0, 1]"
    by (simp add: g_def completion_order_def)
  have d: "distinct (indices g)"
    by (simp add: g_def)
  have run: "dice_perform_matching g [2, 0, 1] = ([no_match []], [(2, ValueError), (0, ValueError)])"
    unfolding g_def by code_simp
  have bad: "filter (\<lambda>idx. isl (dice_calculate_best_match g idx)) (indices g) = [0, 2]"
    unfolding g_def by code_simp
  from C8_failures_are_left_out [OF h, of "dice_calculate_best_match g"] d prep h run bad
  show ?thesis
    unfolding Let_def g_def [symmetric] by blast
qed

text \<open>
  Claim C3, as the specification states it: the results are put back into query input
  order before the table is emitted. The loop appends each result when \<open>as_completed\<close>
  yields its future and nothing sorts the list afterwards: with two queries of which the
  future of the second is yielded first, the edit-distance module returns the row of the
  second query first.
\<close>

theorem C3_completion_order_is_kept:
  "completion_order [0, 1] [1, 0]
   \<and> map MATCH (fst (levenshtein_perform_matching
        (levenshtein_prep (preprocess [Some ''Schlossstrasse'', Some ''Goethestrasse''])
                          (preprocess [Some ''Schlossstr.'', Some ''Goethestr.'']))
        [1, 0])) = [''Goethestr.'', ''Schlossstr.'']
   \<and> [''Goethestr.'', ''Schlossstr.''] \<noteq> [''Schlossstr.'', ''Goethestr.'']"
  by code_simp

text \<open>
  Claim C3, amended: for every matching run the result collection holds the results of
  exactly the succeeding queries, each as often as the query set holds the query, in the
  order in which \<open>as_completed\<close> yields their futures. That order is a rearrangement of
  the query indices which need be neither the input order nor the order in which the tasks
  finished, so the collection is a rearrangement of the rows in query input order, and no
  reassembly by query index takes place.
\<close>

theorem C3_results_in_yield_order:
  assumes "completion_order idxs completed"
  shows "fst (perform_matching calc completed)
           = map (\<lambda>idx. projr (calc idx)) (filter (\<lambda>idx. \<not> isl (calc idx)) completed)
       \<and> mset (filter (\<lambda>idx. \<not> isl (calc idx)) completed)
           = mset (filter (\<lambda>idx. \<not> isl (calc idx)) idxs)
       \<and> mset (fst (perform_matching calc completed))
           = mset (map (\<lambda>idx. projr (calc idx)) (filter (\<lambda>idx. \<not> isl (calc idx)) idxs))"
proof -
  have ok: "mset (filter (\<lambda>idx. \<not> isl (calc idx)) completed)
          = mset (filter (\<lambda>idx. \<not> isl (calc idx)) idxs)"
    using assms by (rule filter_completion)
  then have "mset (map (\<lambda>idx. projr (calc idx)) (filter (\<lambda>idx. \<not> isl (calc idx)) completed))
          = mset (map (\<lambda>idx. projr (calc idx)) (filter (\<lambda>idx. \<not> isl (calc idx)) idxs))"
    by (metis mset_map)
  with ok show ?thesis by (simp add: perform_matching_results)
qed

text \<open>
  Claim C3, amended, at two queries of the edit-distance module of which the future of
  the second is yielded first: the rows are those of the two queries, the second query's
  row first.
\<close>

theorem C3_results_in_yield_order_witness:
  "completion_order [0, 1] [1, 0]
   \<and> fst (perform_matching (levenshtein_calculate_best_match
        (levenshtein_prep (preprocess [Some ''Schlossstrasse'', Some ''Goethestrasse''])
                          (preprocess [Some ''Schlossstr.'', Some ''Goethestr.'']))) [1, 0])
     = map (\<lambda>idx. projr (levenshtein_calculate_best_match
        (levenshtein_prep (preprocess [Some ''Schlossstrasse'', Some ''Goethestrasse''])
                          (preprocess [Some ''Schlossstr.'', Some ''Goethestr.''])) idx))
         (filter (\<lambda>idx. \<not> isl (levenshtein_calculate_best_match
        (levenshtein_prep (preprocess [Some ''Schlossstrasse'', Some ''Goethestrasse''])
                          (preprocess [Some ''Schlossstr.'', Some ''Goethestr.''])) idx)) [1, 0])
   \<and> mset (fst (perform_matching (levenshtein_calculate_best_match
        (levenshtein_prep (preprocess [Some ''Schlossstrasse'', Some ''Goethestrasse''])
                          (preprocess [Some ''Schlossstr.'', Some ''Goethestr.'']))) [1, 0]))
     = mset (map (\<lambda>idx. projr (levenshtein_calculate_best_match
        (levenshtein_prep (preprocess [Some ''Schlossstrasse'', Some ''Goethestrasse''])
                          (preprocess [Some ''Schlossstr.'', Some ''Goethestr.''])) idx))
         (filter (\<lambda>idx. \<not> isl (levenshtein_calculate_best_match
        (levenshtein_prep (preprocess [Some ''Schlossstrasse'', Some ''Goethestrasse''])
                          (preprocess [Some ''Schlossstr.'', Some ''Goethestr.''])) idx)) [0, 1]))"
proof -
  have h: "completion_order [0, 1] [1, 0]"
    by (simp add: completion_order_def)
  from h C3_results_in_yield_order [OF h] show ?thesis
    by blast
qed

section \<open>Edit distance\<close>

text \<open>
  Claim C6, as the specification states it: with the corpus Schlossstrasse, Goethestrasse
  and the query "Schlossstr." the edit-distance score is at least 0.8 and the match is
  accepted. The query normalizes to \<open>schlossstr\<close>, four insertions away from the fourteen
  letters of \<open>schlossstrasse\<close>: the score is \<open>1 - 4/14 = 5/7\<close>, below 0.8, and the
  decision is false.
\<close>

theorem C6_score_below_threshold:
  "map BEST_MATCH (fst (levenshtein_perform_matching
        (levenshtein_prep (preprocess [Some ''Schlossstrasse'', Some ''Goethestrasse''])
                          (preprocess [Some ''Schlossstr.'']))
        [0])) = [Some (5 / 7)]
   \<and> \<not> ((5 / 7 :: rat) \<ge> 8 / 10)
   \<and> map BEST_MATCH_BINARY (projr (levenshtein_export_results
        (fst (levenshtein_perform_matching
           (levenshtein_prep (preprocess [Some ''Schlossstrasse'', Some ''Goethestrasse''])
                             (preprocess [Some ''Schlossstr.'']))
           [0])))) = [False]"
  by code_simp

text \<open>
  Claim C6, amended: with the corpus Schlossstrasse, Goethestrasse and the query
  "Schlossstr.", the edit-distance algorithm under its threshold 0.8 returns the best match
  Schlossstrasse with the score 5/7, and the thresholded decision is not accepted.
\<close>

theorem C6_schlossstr_scenario:
  "map_of THRESHOLDS ''levenshtein'' = Some (8 / 10)
   \<and> levenshtein_export_results
     (fst (levenshtein_perform_matching
        (levenshtein_prep (preprocess [Some ''Schlossstrasse'', Some ''Goethestrasse''])
                          (preprocess [Some ''Schlossstr.'']))
        [0]))
   = Inr [\<lparr>MATCH = ''Schlossstr.'', BEST_FOUND_MATCH = Some ''Schlossstrasse'',
           TRUE_MATCH = None, BEST_MATCH = Some (5 / 7), BEST_MATCH_BINARY = False\<rparr>]"
  by code_simp

section \<open>What the sibling modules guarantee\<close>

text \<open>
  The four modules other than \<open>regex\<close> return the row without best match and without
  score for a query whose normalized text is empty.
\<close>

lemma levenshtein_empty_query:
  assumes "idx < length (match_original_series g)" and "idx < length (match_norm_series g)"
    and "strip (match_norm_series g ! idx) = []"
  shows "levenshtein_calculate_best_match g idx = Inr (no_match (match_original_series g ! idx))"
  using assms by (simp add: levenshtein_calculate_best_match_def iloc_def)

lemma jaccard_empty_query:
  assumes "idx < length (match_original_series g)" and "idx < length (match_norm_series g)"
    and "strip (match_norm_series g ! idx) = []"
  shows "jaccard_calculate_best_match g idx = Inr (no_match (match_original_series g ! idx))"
  using assms by (simp add: jaccard_calculate_best_match_def iloc_def)

lemma transform_empty_document:
  "nnz (map (\<lambda>feature. let n = int (count_list (char_analyzer []) feature)
                          in if binary then min n 1 else n) vocabulary) = 0"
  by (simp add: nnz_def char_analyzer_def lower_def)

lemma overlap_empty_query:
  assumes "ngram_prep (data_df, data_norm, data_original) (match_df, match_norm, match_original) = Inr g"
    and "idx < length match_original" and "idx < length match_norm"
    and "match_norm ! idx = []"
  shows "overlap_calculate_best_match similarity g idx = Inr (no_match (match_original ! idx))"
proof -
  from assms(1) obtain vocabulary where
    g: "g = \<lparr>match_original_series = match_original, data_original_series = data_original,
             indices = match_df,
             match_ngrams_matrix = transform char_analyzer False vocabulary match_norm,
             data_ngrams_matrix = transform char_analyzer False vocabulary data_norm\<rparr>"
    by (auto simp: ngram_prep_def split: sum.splits)
  have "nnz (transform char_analyzer False vocabulary match_norm ! idx) = 0"
    using assms(3,4) transform_empty_document [of False vocabulary]
    by (simp add: transform_def)
  then show ?thesis
    using assms(2,3) by (simp add: overlap_calculate_best_match_def iloc_def g transform_def)
qed

text \<open>
  The Jaccard module scores binary vectors, for which the sum of the products is the size
  of an intersection: every score it computes lies between 0 and 1, and a union of size 0
  gives the score 0.
\<close>

lemma binary_intersection:
  assumes "set row \<subseteq> {0, 1}" and "set match_vector \<subseteq> {0, 1}"
  shows "0 \<le> sum_list (map2 (*) row match_vector)
       \<and> sum_list (map2 (*) row match_vector) \<le> sum_list row
       \<and> sum_list (map2 (*) row match_vector) \<le> sum_list (match_vector :: int list)"
  using assms
proof (induction row arbitrary: match_vector)
  case Nil
  have "0 \<le> sum_list match_vector"
    using Nil.prems(2) by (intro sum_list_nonneg) auto
  then show ?case by simp
next
  case (Cons x row)
  show ?case
  proof (cases match_vector)
    case Nil
    have "0 \<le> sum_list (x # row)"
      using Cons.prems(1) by (intro sum_list_nonneg) auto
    with Nil show ?thesis by simp
  next
    case (Cons y rest)
    with Cons.prems Cons.IH [of rest] show ?thesis by auto
  qed
qed

lemma jaccard_quotient:
  assumes "0 \<le> i" and "i \<le> a" and "i \<le> (b :: int)"
  shows "0 \<le> nan_to_num (true_divide i (a + b - i)) \<and> nan_to_num (true_divide i (a + b - i)) \<le> 1"
proof (cases "a + b - i = 0")
  case True
  with assms have "i = 0" by simp
  with True show ?thesis by (simp add: true_divide_def nan_to_num_def)
next
  case False
  with assms have pos: "0 < a + b - i" and le: "i \<le> a + b - i" by simp_all
  have "(of_int i :: rat) / of_int (a + b - i) \<le> 1"
    using pos le by (simp add: divide_le_eq_1 del: of_int_diff of_int_add)
  moreover have "0 \<le> (of_int i :: rat) / of_int (a + b - i)"
    using pos assms(1) by (simp del: of_int_diff of_int_add)
  ultimately show ?thesis
    using False by (simp add: true_divide_def nan_to_num_def del: of_int_diff of_int_add)
qed

lemma jaccard_similarities_rows:
  "jaccard_similarities vectors match_vector
      = map (\<lambda>row. nan_to_num (true_divide (sum_list (map2 (*) row match_vector))
               (sum_list row + sum_list match_vector - sum_list (map2 (*) row match_vector))))
          vectors"
  by (induction vectors) (simp_all add: jaccard_similarities_def multiply_sum_def Let_def)

lemma jaccard_similarities_unit_interval:
  assumes "\<forall>row\<in>set vectors. set row \<subseteq> {0, 1}" and "set match_vector \<subseteq> {0, 1}"
    and "s \<in> set (jaccard_similarities vectors match_vector)"
  shows "0 \<le> s \<and> s \<le> 1"
proof -
  from assms(3) obtain row where row: "row \<in> set vectors"
    and s: "s = nan_to_num (true_divide (sum_list (map2 (*) row match_vector))
               (sum_list row + sum_list match_vector - sum_list (map2 (*) row match_vector)))"
    unfolding jaccard_similarities_rows by auto
  have "set row \<subseteq> {0, 1}" using assms(1) row by blast
  from binary_intersection [OF this assms(2)] show ?thesis
    unfolding s by (intro jaccard_quotient) simp_all
qed

lemma transform_binary:
  assumes "row \<in> set (transform analyzer True vocabulary raw_documents)"
  shows "set row \<subseteq> {0, 1}"
  using assms by (auto simp: transform_def Let_def min_def)

section \<open>Overlap of bigram counts\<close>

lemma float_max_large: "1 < float_max"
  by (simp add: float_max_def)

lemma ngram_similarity_aaa: "ngram_similarity [2] [[2]] = [float_max]"
  by (simp add: ngram_similarity_def multiply_sum_def true_divide_def nan_to_num_def)

text \<open>
  Claim C1: every score lies between 0 and 1, and every division by zero resolves to a
  score of 0. The modules \<open>dice\<close> and \<open>ngram\<close> count bigrams (\<open>binary=False\<close>) and take
  the sum of the products of the counts for the size of the intersection, which exceeds
  the sizes of the two bags as soon as a bigram repeats. For the query \<open>aaa\<close> against the
  reference \<open>aaa\<close> (the bigram \<open>aa\<close> twice in each) the intersection is 4: \<open>ngram\<close>
  divides 4 by \<open>2 + 2 - 4 = 0\<close>, the quotient is infinite, and \<open>nan_to_num\<close> turns it
  into the largest finite float, not into 0; \<open>dice\<close> returns \<open>2 * 4 / (2 + 2) = 2\<close>. Both
  rows are emitted and accepted.
\<close>

theorem C1_overlap_scores_leave_unit_interval:
  "ngram_main [Some ''aaa''] [Some ''aaa''] [0]
     = Inr [\<lparr>MATCH = ''aaa'', BEST_FOUND_MATCH = Some ''aaa'', TRUE_MATCH = None,
             BEST_MATCH = Some float_max, BEST_MATCH_BINARY = True\<rparr>]
   \<and> 1 < float_max
   \<and> dice_main [Some ''aaa''] [Some ''aaa''] [0]
     = Inr [\<lparr>MATCH = ''aaa'', BEST_FOUND_MATCH = Some ''aaa'', TRUE_MATCH = None,
             BEST_MATCH = Some 2, BEST_MATCH_BINARY = True\<rparr>]"
proof -
  have prep: "ngram_prep (preprocess [Some ''aaa'']) (preprocess [Some ''aaa''])
      = Inr \<lparr>match_original_series = [''aaa''], data_original_series = [''aaa''],
             indices = [0], match_ngrams_matrix = [[2]], data_ngrams_matrix = [[2]]\<rparr>"
    by code_simp
  have calc: "ngram_calculate_best_match
       \<lparr>match_original_series = [''aaa''], data_original_series = [''aaa''],
        indices = [0], match_ngrams_matrix = [[2]], data_ngrams_matrix = [[2]]\<rparr> 0
     = Inr \<lparr>MATCH = ''aaa'', BEST_FOUND_MATCH = Some ''aaa'', TRUE_MATCH = None,
            BEST_MATCH = Some float_max\<rparr>"
    by (simp add: ngram_calculate_best_match_def overlap_calculate_best_match_def iloc_def
        nnz_def ngram_similarity_aaa argmax_def)
  have thr: "map_of THRESHOLDS ''ngram'' = Some (5 / 10)"
    by (simp add: THRESHOLDS_def)
  have ge: "1 \<le> float_max * 2"
    using float_max_large by simp
  have 1: "ngram_main [Some ''aaa''] [Some ''aaa''] [0]
     = Inr [\<lparr>MATCH = ''aaa'', BEST_FOUND_MATCH = Some ''aaa'', TRUE_MATCH = None,
             BEST_MATCH = Some float_max, BEST_MATCH_BINARY = True\<rparr>]"
    by (simp add: ngram_main_def prep ngram_perform_matching_def perform_matching_def calc
        ngram_export_results_def export_results_def thr float_number_def ge
        match_result.extend_def export_row.fields_def)
  have 2: "dice_main [Some ''aaa''] [Some ''aaa''] [0]
     = Inr [\<lparr>MATCH = ''aaa'', BEST_FOUND_MATCH = Some ''aaa'', TRUE_MATCH = None,
             BEST_MATCH = Some 2, BEST_MATCH_BINARY = True\<rparr>]"
    by code_simp
  from 1 2 float_max_large show ?thesis by (intro conjI)
qed

section \<open>Token overlap\<close>


text \<open>
  The quantity that \<open>jaccard\<close> calls \<open>union\<close> leaves out the tokens of the query that the
  corpus does not hold: a corpus entry scores 1 against every query that holds its
  tokens, whatever else the query holds.
\<close>

lemma jaccard_union_leaves_out_query_tokens:
  "jaccard_main [Some ''Hauptstrasse 1''] [Some ''Hauptstrasse Eins''] [0]
     = Inr [\<lparr>MATCH = ''Hauptstrasse Eins'', BEST_FOUND_MATCH = Some ''Hauptstrasse 1'',
             TRUE_MATCH = None, BEST_MATCH = Some 1, BEST_MATCH_BINARY = True\<rparr>]
   \<and> jaccard_main [Some ''Hauptstrasse''] [Some ''Hauptstrasse Eins Zwei Drei''] [0]
     = Inr [\<lparr>MATCH = ''Hauptstrasse Eins Zwei Drei'', BEST_FOUND_MATCH = Some ''Hauptstrasse'',
             TRUE_MATCH = None, BEST_MATCH = Some 1, BEST_MATCH_BINARY = True\<rparr>]"
  by code_simp

section \<open>Containment\<close>

lemma special_not_alnum:
  "c \<in> set special_chars_map \<Longrightarrow> \<not> ascii_letter c \<and> \<not> ascii_digit c"
  by (auto simp: special_chars_map_def backslash_def ascii_letter_def ascii_digit_def)

lemma SPECIAL_CHARS_escaped: "c \<in> set SPECIAL_CHARS \<Longrightarrow> c \<in> set special_chars_map"
  by (auto simp: special_chars_map_def SPECIAL_CHARS_def)

lemma backslash_escaped: "backslash \<in> set special_chars_map"
  by (simp add: special_chars_map_def)

lemma sre_parse_plain:
  assumes "c \<noteq> backslash" and "c \<notin> set SPECIAL_CHARS" and "sre_parse rest = Inr items"
  shows "sre_parse (c # rest) = Inr (LITERAL c # items)"
  using assms by (cases rest) auto

lemma sre_parse_escaped:
  assumes "c \<in> set special_chars_map" and "sre_parse rest = Inr items"
  shows "sre_parse (backslash # c # rest) = Inr (LITERAL c # items)"
  using assms special_not_alnum [OF assms(1)] by (simp add: escape_item_def)

lemma sre_parse_re_escape: "sre_parse (re_escape s) = Inr (map LITERAL s)"
proof (induction s)
  case Nil
  show ?case by (simp add: re_escape_def)
next
  case (Cons c s)
  have step: "re_escape (c # s) =
      (if c \<in> set special_chars_map then [backslash, c] else [c]) @ re_escape s"
    by (simp add: re_escape_def)
  show ?case
  proof (cases "c \<in> set special_chars_map")
    case True
    then have "sre_parse (backslash # c # re_escape s) = Inr (LITERAL c # map LITERAL s)"
      using Cons.IH by (rule sre_parse_escaped)
    with step True show ?thesis by simp
  next
    case False
    then have "c \<noteq> backslash" "c \<notin> set SPECIAL_CHARS"
      using backslash_escaped SPECIAL_CHARS_escaped by auto
    then have "sre_parse (c # re_escape s) = Inr (LITERAL c # map LITERAL s)"
      using Cons.IH by (rule sre_parse_plain)
    with step False show ?thesis by simp
  qed
qed

lemma literals_LITERAL: "literals (map LITERAL s) = Some s"
  by (induction s) simp_all

lemma those_Some: "those (map (\<lambda>t. Some (f t)) xs) = Some (map f xs)"
  by (induction xs) simp_all

lemma str_find_sublist: "str_find sub s = sublist sub s"
  by (induction s) (simp_all add: sublist_Cons_right)

lemma pattern_search_literal:
  "pattern_search (map LITERAL cs) = (\<lambda>s. Some (sublist (lower cs) (lower s)))"
  by (rule ext) (simp add: pattern_search_def literals_LITERAL str_find_sublist)

text \<open>
  Claim C10: in the containment algorithm the normalized query is escaped before it is
  compiled. For every query string, metacharacters included, compiling the escaped query
  does not raise and gives the pattern of the query's own characters as literals, and the
  forward match of \<open>__regex_matching\<close> is, for each string of the series, the test
  whether the lowercased query occurs in the lowercased string.
\<close>

theorem C10_escaped_query_is_literal:
  "sre_parse (re_escape s1_clean) = Inr (map LITERAL s1_clean)
   \<and> regex_matching s1_clean s2_series
       = Inr (Some (map (\<lambda>s. sublist (lower s1_clean) (lower s)) s2_series))"
  by (simp add: sre_parse_re_escape regex_matching_def pattern_search_literal those_Some)

text \<open>
  Claim C2: a query whose normalized text is empty gets no best match and no score from
  every algorithm, and is not accepted. The modules \<open>levenshtein\<close> and \<open>jaccard\<close> test
  the stripped query and \<open>dice\<close> and \<open>ngram\<close> the query's vector before they score;
  \<open>regex\<close> has no such test. The escaped empty query compiles to the empty pattern, which
  is found in every string: with the corpus of the specification's scenario (one street
  name with u-umlaut) the empty query gets that entry as its best match, the score
  \<open>True\<close>, and is accepted.
\<close>

theorem C2_regex_scores_empty_query:
  "normalize_text [] = []
   \<and> regex_main [Some (''M'' @ [u_uml] @ ''llerweg'')] [Some []] [0]
     = Inr (Some [\<lparr>MATCH = [], BEST_FOUND_MATCH = Some (''M'' @ [u_uml] @ ''llerweg''),
              TRUE_MATCH = None, BEST_MATCH = Some True, BEST_MATCH_BINARY = True\<rparr>])"
  by code_simp

section \<open>Empty inputs\<close>

lemma perform_matching_all_succeed:
  assumes "\<And>idx. idx \<in> set completed \<Longrightarrow> calc idx = Inr (f idx)"
  shows "perform_matching calc completed = (map f completed, [])"
proof -
  have ok: "filter (\<lambda>idx. \<not> isl (calc idx)) completed = completed"
    using assms by (simp add: filter_id_conv)
  have bad: "filter (\<lambda>idx. isl (calc idx)) completed = []"
    using assms by (simp add: filter_empty_conv)
  have "map (\<lambda>idx. projr (calc idx)) completed = map f completed"
    using assms by (simp cong: map_cong)
  with ok bad show ?thesis
    by (simp add: perform_matching_def collect_eq)
qed

lemma completion_order_range:
  assumes "completion_order [0..<n] completed" and "idx \<in> set completed"
  shows "idx < n"
proof -
  have "set completed = set [0..<n]"
    using assms(1) unfolding completion_order_def by (rule mset_eq_setD)
  with assms(2) show ?thesis by simp
qed

lemma preprocess_empty: "preprocess [] = ([], [], [])"
  by (simp add: preprocess_def)

lemma levenshtein_empty_corpus:
  assumes "idx < length match"
  shows "levenshtein_calculate_best_match (levenshtein_prep (preprocess []) (preprocess match)) idx
      = Inr (no_match (map (\<lambda>v. case v of None \<Rightarrow> [] | Some s \<Rightarrow> s) match ! idx))"
  using assms
  by (simp add: levenshtein_calculate_best_match_def levenshtein_prep_def preprocess_def
      iloc_def extractOne_def Let_def)

lemma regex_matching_empty_series: "regex_matching s1_clean [] = Inr (Some [])"
  by (simp add: regex_matching_def sre_parse_re_escape)

lemma regex_empty_corpus:
  assumes "idx < length match"
  shows "regex_calculate_best_match (regex_prep (preprocess []) (preprocess match)) idx
      = Inr (Some \<lparr>MATCH = map (\<lambda>v. case v of None \<Rightarrow> [] | Some s \<Rightarrow> s) match ! idx,
                   BEST_FOUND_MATCH = None, TRUE_MATCH = None, BEST_MATCH = Some False\<rparr>)"
  using assms
  by (simp add: regex_calculate_best_match_def regex_prep_def preprocess_def
      iloc_def regex_matching_empty_series reverse_regex_matching_def Let_def)

lemma jaccard_empty_corpus: "jaccard_prep (preprocess []) (preprocess match) = Inl ValueError"
  by (simp add: jaccard_prep_def preprocess_def fit_def Let_def)

text \<open>
  Claim C4, as the specification states it: with an empty reference corpus or an empty
  query set no exception is raised by prepare or by the search. The prepare of the
  Jaccard module fits its vectorizer on the corpus, and fitting on a corpus without a
  token raises \<open>ValueError\<close> (empty vocabulary).
\<close>

theorem C4_jaccard_prep_raises:
  "jaccard_prep (preprocess []) (preprocess [Some ''Hauptstrasse 1'']) = Inl ValueError"
  by code_simp

text \<open>
  Claim C4, amended: if the reference corpus is empty at prepare time, the prepare of the
  Jaccard algorithm raises \<open>ValueError\<close>, while the edit-distance and the containment
  algorithm raise nothing in prepare or search and report no match for every query, in
  whatever order the futures are yielded (no best match, and no score for edit distance, the score
  \<open>False\<close> for containment); if the query set is empty, the prepare of these two
  algorithms raises nothing and their search returns an empty result collection.
\<close>

theorem C4_empty_corpus_or_queries:
  assumes "completion_order [0..<length match] completed"
  shows "jaccard_prep (preprocess []) (preprocess match) = Inl ValueError
       \<and> levenshtein_perform_matching (levenshtein_prep (preprocess []) (preprocess match)) completed
           = (map (\<lambda>idx. no_match (map (\<lambda>v. case v of None \<Rightarrow> [] | Some s \<Rightarrow> s) match ! idx))
                completed, [])
       \<and> regex_perform_matching (regex_prep (preprocess []) (preprocess match)) completed
           = (map (\<lambda>idx. Some \<lparr>MATCH = map (\<lambda>v. case v of None \<Rightarrow> [] | Some s \<Rightarrow> s) match ! idx,
                     BEST_FOUND_MATCH = None, TRUE_MATCH = None, BEST_MATCH = Some False\<rparr>)
                completed, [])
       \<and> levenshtein_perform_matching (levenshtein_prep (preprocess data) (preprocess []))
             (indices (levenshtein_prep (preprocess data) (preprocess []))) = ([], [])
       \<and> regex_perform_matching (regex_prep (preprocess data) (preprocess []))
             (indices (regex_prep (preprocess data) (preprocess []))) = ([], [])"
proof -
  have in_range: "idx < length match" if "idx \<in> set completed" for idx
    using assms that by (rule completion_order_range)
  have 1: "levenshtein_perform_matching (levenshtein_prep (preprocess []) (preprocess match)) completed
           = (map (\<lambda>idx. no_match (map (\<lambda>v. case v of None \<Rightarrow> [] | Some s \<Rightarrow> s) match ! idx))
                completed, [])"
    unfolding levenshtein_perform_matching_def
    by (rule perform_matching_all_succeed) (simp add: levenshtein_empty_corpus in_range)
  have 2: "regex_perform_matching (regex_prep (preprocess []) (preprocess match)) completed
           = (map (\<lambda>idx. Some \<lparr>MATCH = map (\<lambda>v. case v of None \<Rightarrow> [] | Some s \<Rightarrow> s) match ! idx,
                     BEST_FOUND_MATCH = None, TRUE_MATCH = None, BEST_MATCH = Some False\<rparr>)
                completed, [])"
    unfolding regex_perform_matching_def
    by (rule perform_matching_all_succeed) (simp add: regex_empty_corpus in_range)
  have 3: "levenshtein_perform_matching (levenshtein_prep (preprocess data) (preprocess []))
             (indices (levenshtein_prep (preprocess data) (preprocess []))) = ([], [])"
    by (simp add: levenshtein_perform_matching_def perform_matching_def levenshtein_prep_def
        preprocess_def split: prod.splits)
  have 4: "regex_perform_matching (regex_prep (preprocess data) (preprocess []))
             (indices (regex_prep (preprocess data) (preprocess []))) = ([], [])"
    by (simp add: regex_perform_matching_def perform_matching_def regex_prep_def
        preprocess_def split: prod.splits)
  from jaccard_empty_corpus 1 2 3 4 show ?thesis by (intro conjI)
qed

text \<open>
  Claim C4, amended, at an empty corpus and two queries, the second one a missing value,
  with the future of the second query yielded first.
\<close>

theorem C4_empty_corpus_or_queries_witness:
  "completion_order [0..<length [Some ''Hauptstrasse Eins'', None]] [1, 0]
   \<and> jaccard_prep (preprocess []) (preprocess [Some ''Hauptstrasse Eins'', None]) = Inl ValueError
   \<and> levenshtein_perform_matching
         (levenshtein_prep (preprocess []) (preprocess [Some ''Hauptstrasse Eins'', None])) [1, 0]
       = ([no_match [], no_match ''Hauptstrasse Eins''], [])
   \<and> regex_perform_matching
         (regex_prep (preprocess []) (preprocess [Some ''Hauptstrasse Eins'', None])) [1, 0]
       = ([Some \<lparr>MATCH = [], BEST_FOUND_MATCH = None, TRUE_MATCH = None, BEST_MATCH = Some False\<rparr>,
           Some \<lparr>MATCH = ''Hauptstrasse Eins'', BEST_FOUND_MATCH = None, TRUE_MATCH = None,
                 BEST_MATCH = Some False\<rparr>], [])
   \<and> levenshtein_perform_matching (levenshtein_prep (preprocess [Some ''Weg'']) (preprocess []))
         (indices (levenshtein_prep (preprocess [Some ''Weg'']) (preprocess []))) = ([], [])
   \<and> regex_perform_matching (regex_prep (preprocess [Some ''Weg'']) (preprocess []))
         (indices (regex_prep (preprocess [Some ''Weg'']) (preprocess []))) = ([], [])"
proof -
  have h: "completion_order [0..<length [Some ''Hauptstrasse Eins'', None]] [1, 0]"
    by (simp add: completion_order_def)
  from h C4_empty_corpus_or_queries [OF h, of "[Some ''Weg'']"] show ?thesis
    by simp
qed

section \<open>The six modules\<close>





























end
